theory Spec2Isabelle
  imports Complex_Main "HOL-Library.Multiset"
begin

section \<open>Numbers, readings and plan schemas\<close>

text \<open>
  The plan comparison route and the usage prediction route of the web application are
  embedded here. JavaScript numbers are modelled as real numbers: the arithmetic below is
  exact, and the properties proved are those of the computation, not of its rounding in
  double precision. The two non-finite values that the source can produce are written out
  where they arise: \<open>Infinity\<close> as the missing bound of \<open>Math.min\<close> in the tier loop,
  and the result of a division by zero in the type \<open>number\<close> of the prediction route.

  A \<open>Date\<close> is its number of milliseconds since the epoch. \<open>getHours\<close> and
  \<open>getDay\<close> read it in the time zone of the server, which is a parameter \<open>tz\<close> of
  the model: the offset of the local time from UTC in milliseconds, \<open>0\<close> for a server
  that runs in UTC (a change of the offset along the year is not modelled). The date part
  of \<open>toISOString()\<close> is in UTC whatever the zone, and is represented by the day
  number.
\<close>

record usage =
  timestamp :: int
  kWh :: real

definition getHours :: "int \<Rightarrow> int \<Rightarrow> int" where
  "getHours tz ts = ((ts + tz) div 3600000) mod 24"

definition getDay :: "int \<Rightarrow> int \<Rightarrow> int" where
  "getDay tz ts = ((ts + tz) div 86400000 + 4) mod 7"

definition isoDate :: "int \<Rightarrow> int" where
  "isoDate ts = ts div 86400000"

record tier =
  limit :: "real option"
  rate :: real

record periods =
  offPeak :: "real option"
  midPeak :: "real option"
  onPeak :: "real option"

text \<open>
  The schema of a plan is a JSON object read without a type (\<open>any\<close>): a field that the
  code reads with a default or compares may be absent, which is \<open>None\<close>. The rate of a
  tier is used as a number and taken to be one.
\<close>

record schema =
  type :: "string option"
  baseRate :: "real option"
  tiers :: "tier list option"
  periods :: "periods option"
  greenEnergy :: bool
  rewards :: bool

record plan =
  plan_id :: string
  plan_name :: string
  plan_provider :: string
  plan_region :: string
  plan_active :: bool
  plan_schema :: schema

record PlanComparison =
  planId :: string
  planName :: string
  provider :: string
  estimatedMonthlyCost :: real
  estimatedAnnualCost :: real
  estimatedAnnualSavings :: real
  planType :: string
  features :: "string list"

text \<open>
  The response of the comparison; the two dates of its analysis period are those of the
  request and are left out.
\<close>

record CompareResponse =
  currentPlan_provider :: "string option"
  currentPlan_estimatedMonthlyCost :: real
  recommendations :: "PlanComparison list"
  totalUsage :: real

datatype error = TypeError | InsufficientData

section \<open>The plan cost calculator\<close>

text \<open>
  \<open>x || d\<close> on an optional number: the default \<open>d\<close> replaces an absent value and the
  falsy number \<open>0\<close>.
\<close>

definition or_default :: "real option \<Rightarrow> real \<Rightarrow> real" where
  "or_default x d = (case x of None \<Rightarrow> d | Some v \<Rightarrow> if v = 0 then d else v)"

text \<open>
  \<open>Math.min(remainingKwh, tier.limit || Infinity)\<close>: an absent limit and the limit
  \<open>0\<close> both give \<open>Infinity\<close>, whose minimum with a finite number is that number.
\<close>

definition min_limit :: "real \<Rightarrow> real option \<Rightarrow> real" where
  "min_limit remainingKwh l =
     (case l of None \<Rightarrow> remainingKwh
      | Some v \<Rightarrow> if v = 0 then remainingKwh else min remainingKwh v)"

definition sum_kWh :: "usage list \<Rightarrow> real" where
  "sum_kWh usageData = foldl (\<lambda>sum u. sum + kWh u) 0 usageData"

text \<open>The \<open>for\<close> loop of \<open>calculateTieredCost\<close>, with its \<open>break\<close>.\<close>

fun tier_loop :: "tier list \<Rightarrow> real \<Rightarrow> real \<Rightarrow> real" where
  "tier_loop [] cost remainingKwh = cost"
| "tier_loop (t # ts) cost remainingKwh =
     (let tierKwh = min_limit remainingKwh (limit t);
          cost' = cost + tierKwh * rate t;
          remainingKwh' = remainingKwh - tierKwh
      in if remainingKwh' \<le> 0 then cost' else tier_loop ts cost' remainingKwh')"

definition calculateTieredCost :: "real \<Rightarrow> tier list option \<Rightarrow> real" where
  "calculateTieredCost totalKwh ts =
     tier_loop (case ts of None \<Rightarrow> [] | Some l \<Rightarrow> l) 0 totalKwh"

definition rate_for_hour :: "periods \<Rightarrow> int \<Rightarrow> real" where
  "rate_for_hour p hour =
     (if hour \<ge> 7 \<and> hour < 11 then or_default (onPeak p) 0.18
      else if hour \<ge> 11 \<and> hour < 17 then or_default (midPeak p) 0.13
      else if hour \<ge> 17 \<and> hour < 19 then or_default (onPeak p) 0.18
      else or_default (offPeak p) 0.08)"

fun tou_loop :: "int \<Rightarrow> periods \<Rightarrow> usage list \<Rightarrow> real \<Rightarrow> real" where
  "tou_loop tz p [] cost = cost"
| "tou_loop tz p (u # us) cost =
     tou_loop tz p us (cost + kWh u * rate_for_hour p (getHours tz (timestamp u)))"

text \<open>
  \<open>periods.offPeak\<close> is read in the body of the loop: when the schema has no
  \<open>periods\<close> the first reading raises a \<open>TypeError\<close>, and no reading raises nothing.
\<close>

definition calculateTOUCost :: "int \<Rightarrow> usage list \<Rightarrow> periods option \<Rightarrow> error + real" where
  "calculateTOUCost tz usageData ps =
     (case ps of
        None \<Rightarrow> if usageData = [] then Inr 0 else Inl TypeError
      | Some p \<Rightarrow> Inr (tou_loop tz p usageData 0))"

definition calculatePlanCost :: "int \<Rightarrow> schema \<Rightarrow> usage list \<Rightarrow> error + real" where
  "calculatePlanCost tz s usageData =
     (let totalKwh = sum_kWh usageData;
          rate0 = or_default (baseRate s) 0.12
      in if type s = Some ''tiered'' then Inr (calculateTieredCost totalKwh (tiers s))
         else if type s = Some ''tou'' then calculateTOUCost tz usageData (periods s)
         else Inr (totalKwh * rate0))"

definition calculateCurrentCost :: "usage list \<Rightarrow> real" where
  "calculateCurrentCost usageData = sum_kWh usageData * 0.15"

definition getPlanType :: "schema \<Rightarrow> string" where
  "getPlanType s = (case type s of None \<Rightarrow> ''fixed'' | Some t \<Rightarrow> if t = [] then ''fixed'' else t)"

definition getPlanFeatures :: "schema \<Rightarrow> string list" where
  "getPlanFeatures s =
     (if type s = Some ''tou'' then [''Time-of-Use pricing''] else []) @
     (if type s = Some ''tiered'' then [''Tiered pricing''] else []) @
     (if greenEnergy s then [''100% Green Energy''] else []) @
     (if rewards s then [''Rewards program''] else [])"

section \<open>The recommendation ranker\<close>

text \<open>A string is truthy when it is present and not empty.\<close>

definition truthy :: "string option \<Rightarrow> bool" where
  "truthy s = (case s of None \<Rightarrow> False | Some t \<Rightarrow> t \<noteq> [])"

text \<open>The callback of \<open>availablePlans.map\<close>.\<close>

definition compare_plan ::
  "int \<Rightarrow> string option \<Rightarrow> usage list \<Rightarrow> plan \<Rightarrow> error + PlanComparison" where
  "compare_plan tz account_provider usageData p =
     (case calculatePlanCost tz (plan_schema p) usageData of
        Inl e \<Rightarrow> Inl e
      | Inr estimatedCost \<Rightarrow>
          (let currentCost = (if truthy account_provider then calculateCurrentCost usageData
                              else estimatedCost)
           in Inr \<lparr> planId = plan_id p,
                    planName = plan_name p,
                    provider = plan_provider p,
                    estimatedMonthlyCost = estimatedCost / 3,
                    estimatedAnnualCost = (estimatedCost / 3) * 12,
                    estimatedAnnualSavings = max 0 ((currentCost - estimatedCost) * 4),
                    planType = getPlanType (plan_schema p),
                    features = getPlanFeatures (plan_schema p) \<rparr>))"

text \<open>\<open>Array.prototype.map\<close> with a callback that may throw: the first error ends it.\<close>

fun map_plans :: "(plan \<Rightarrow> error + PlanComparison) \<Rightarrow> plan list \<Rightarrow> error + PlanComparison list" where
  "map_plans f [] = Inr []"
| "map_plans f (p # ps) =
     (case f p of
        Inl e \<Rightarrow> Inl e
      | Inr c \<Rightarrow> (case map_plans f ps of Inl e \<Rightarrow> Inl e | Inr cs \<Rightarrow> Inr (c # cs)))"

text \<open>
  \<open>prisma.planCatalog.findMany\<close> with \<open>where: { region, active: true }\<close>, on the rows
  of the catalogue in their stored order.
\<close>

definition findMany_plans :: "plan list \<Rightarrow> string \<Rightarrow> plan list" where
  "findMany_plans catalog region = filter (\<lambda>p. plan_region p = region \<and> plan_active p) catalog"

text \<open>
  \<open>comparisons.sort((a, b) => b.estimatedAnnualSavings - a.estimatedAnnualSavings)\<close>:
  the sort of an array is stable, and descending in the savings here, which is the stable
  ascending sort on their negation.
\<close>

definition sort_by_savings :: "PlanComparison list \<Rightarrow> PlanComparison list" where
  "sort_by_savings cs = sort_key (\<lambda>c. - estimatedAnnualSavings c) cs"

text \<open>
  \<open>handleCompare\<close> from the point where the session, the user and the account have been
  found: its arguments are the time zone of the server, the provider of the account, the
  usage rows of the period, the rows of the plan catalogue and the region of the request.
\<close>

definition handleCompare ::
  "int \<Rightarrow> string option \<Rightarrow> usage list \<Rightarrow> plan list \<Rightarrow> string \<Rightarrow> error + CompareResponse" where
  "handleCompare tz account_provider usageData catalog region =
     (let availablePlans = findMany_plans catalog region
      in case map_plans (compare_plan tz account_provider usageData) availablePlans of
           Inl e \<Rightarrow> Inl e
         | Inr comparisons \<Rightarrow>
             Inr \<lparr> currentPlan_provider = account_provider,
                   currentPlan_estimatedMonthlyCost = calculateCurrentCost usageData / 3,
                   recommendations = take 5 (sort_by_savings comparisons),
                   totalUsage = sum_kWh usageData \<rparr>)"

section \<open>The usage prediction route\<close>

text \<open>
  The numbers of the prediction route, with the values that a division by zero produces:
  a zero divisor gives \<open>NaN\<close> for a zero dividend and an infinity otherwise (the sign of
  a zero is not modelled).
\<close>

datatype number = Num real | NaN | PosInfinity | NegInfinity

definition js_div :: "real \<Rightarrow> real \<Rightarrow> number" where
  "js_div a b =
     (if b \<noteq> 0 then Num (a / b)
      else if a = 0 then NaN
      else if a > 0 then PosInfinity else NegInfinity)"

fun num_add :: "number \<Rightarrow> number \<Rightarrow> number" where
  "num_add (Num a) (Num b) = Num (a + b)"
| "num_add NaN y = NaN"
| "num_add x NaN = NaN"
| "num_add PosInfinity NegInfinity = NaN"
| "num_add NegInfinity PosInfinity = NaN"
| "num_add PosInfinity y = PosInfinity"
| "num_add x PosInfinity = PosInfinity"
| "num_add NegInfinity y = NegInfinity"
| "num_add x NegInfinity = NegInfinity"

text \<open>The product with a finite number.\<close>

fun num_times :: "number \<Rightarrow> real \<Rightarrow> number" where
  "num_times (Num a) c = Num (a * c)"
| "num_times NaN c = NaN"
| "num_times PosInfinity c = (if c > 0 then PosInfinity else if c < 0 then NegInfinity else NaN)"
| "num_times NegInfinity c = (if c > 0 then NegInfinity else if c < 0 then PosInfinity else NaN)"

text \<open>The comparisons \<open>x > c\<close> and \<open>x < c\<close> with a finite \<open>c\<close>; both are false of \<open>NaN\<close>.\<close>

fun num_gt :: "number \<Rightarrow> real \<Rightarrow> bool" where
  "num_gt (Num a) c = (a > c)"
| "num_gt NaN c = False"
| "num_gt PosInfinity c = True"
| "num_gt NegInfinity c = False"

fun num_lt :: "number \<Rightarrow> real \<Rightarrow> bool" where
  "num_lt (Num a) c = (a < c)"
| "num_lt NaN c = False"
| "num_lt PosInfinity c = False"
| "num_lt NegInfinity c = True"

text \<open>\<open>Math.max(0, x)\<close>.\<close>

fun math_max0 :: "number \<Rightarrow> number" where
  "math_max0 (Num a) = Num (max 0 a)"
| "math_max0 NaN = NaN"
| "math_max0 PosInfinity = PosInfinity"
| "math_max0 NegInfinity = Num 0"

text \<open>\<open>Math.round\<close> rounds to the nearest integer, a half towards positive infinity.\<close>

definition math_round :: "real \<Rightarrow> int" where
  "math_round x = \<lfloor>x + 1 / 2\<rfloor>"

text \<open>\<open>Math.round(x * 100) / 100\<close>.\<close>

fun round2 :: "number \<Rightarrow> number" where
  "round2 (Num a) = Num (real_of_int (math_round (a * 100)) / 100)"
| "round2 NaN = NaN"
| "round2 PosInfinity = PosInfinity"
| "round2 NegInfinity = NegInfinity"

text \<open>
  \<open>x || d\<close> where \<open>x\<close> is the result of \<open>Map.get\<close>: the default replaces \<open>undefined\<close>,
  \<open>NaN\<close> and \<open>0\<close>.
\<close>

fun or_number :: "number option \<Rightarrow> number \<Rightarrow> number" where
  "or_number None d = d"
| "or_number (Some NaN) d = d"
| "or_number (Some (Num v)) d = (if v = 0 then d else Num v)"
| "or_number (Some PosInfinity) d = PosInfinity"
| "or_number (Some NegInfinity) d = NegInfinity"

text \<open>\<open>values.reduce((a, b) => a + b, 0)\<close>.\<close>

definition reduce_sum :: "real list \<Rightarrow> real" where
  "reduce_sum values = foldl (\<lambda>a b. a + b) 0 values"

datatype trend_label = increasing | decreasing | stable

record PredictionAnalytics =
  averageDailyUsage :: number
  peakUsageHour :: int
  lowestUsageHour :: int
  weekdayAverage :: number
  weekendAverage :: number
  monthlyTrend :: number

text \<open>The date of a prediction is its day number.\<close>

record UsagePrediction =
  date :: int
  predictedKWh :: number
  confidence :: real
  trend :: trend_label
  estimatedCost :: number

text \<open>
  Of the response, the predictions, the analytics and the number of data points are
  modelled; the insights are texts derived from them.
\<close>

record PredictionResponse =
  predictions :: "UsagePrediction list"
  analytics :: PredictionAnalytics
  dataPoints :: nat

text \<open>
  A \<open>Map\<close> keeps its keys in the order of their first insertion: \<open>set\<close> on a key that
  is present replaces the value in place, and appends the entry otherwise.
\<close>

fun map_set :: "'k \<Rightarrow> 'v \<Rightarrow> ('k \<times> 'v) list \<Rightarrow> ('k \<times> 'v) list" where
  "map_set k v [] = [(k, v)]"
| "map_set k v ((k', v') # m) = (if k' = k then (k, v) # m else (k', v') # map_set k v m)"

text \<open>\<open>dailyUsage.get(date) || 0\<close>.\<close>

definition get_or_zero :: "(int \<times> real) list \<Rightarrow> int \<Rightarrow> real" where
  "get_or_zero m k = (case map_of m k of None \<Rightarrow> 0 | Some v \<Rightarrow> v)"

text \<open>
  The array of a key of \<open>hourlyUsage\<close> after \<open>if (!m.has(k)) m.set(k, [])\<close> followed by
  \<open>m.get(k)!.push(v)\<close>: a new key enters at the end with the array \<open>[v]\<close>, and the
  array of a key that is present grows by \<open>v\<close>.
\<close>

definition map_push :: "int \<Rightarrow> real \<Rightarrow> (int \<times> real list) list \<Rightarrow> (int \<times> real list) list" where
  "map_push k v m = map_set k ((case map_of m k of None \<Rightarrow> [] | Some vs \<Rightarrow> vs) @ [v]) m"

text \<open>The first loop of \<open>calculateAnalytics\<close>, over the readings.\<close>

fun analytics_loop ::
  "int \<Rightarrow> usage list \<Rightarrow> (int \<times> real) list \<Rightarrow> (int \<times> real list) list \<Rightarrow> real list \<Rightarrow> real list \<Rightarrow>
   (int \<times> real) list \<times> (int \<times> real list) list \<times> real list \<times> real list" where
  "analytics_loop tz [] dailyUsage hourlyUsage weekdayUsage weekendUsage =
     (dailyUsage, hourlyUsage, weekdayUsage, weekendUsage)"
| "analytics_loop tz (u # us) dailyUsage hourlyUsage weekdayUsage weekendUsage =
     (let d = isoDate (timestamp u);
          hour = getHours tz (timestamp u);
          isWeekend = (getDay tz (timestamp u) \<in> {0, 6})
      in analytics_loop tz us
           (map_set d (get_or_zero dailyUsage d + kWh u) dailyUsage)
           (map_push hour (kWh u) hourlyUsage)
           (if isWeekend then weekdayUsage else weekdayUsage @ [kWh u])
           (if isWeekend then weekendUsage @ [kWh u] else weekendUsage))"

definition calculateTrend :: "real list \<Rightarrow> number" where
  "calculateTrend values =
     (let n = length values;
          x = [0..<n];
          y = values;
          sumX = foldl (\<lambda>a b. a + real b) 0 x;
          sumY = foldl (\<lambda>a b. a + b) 0 y;
          sumXY = foldl (\<lambda>sum xi. sum + real xi * (y ! xi)) 0 x;
          sumX2 = foldl (\<lambda>sum xi. sum + real xi * real xi) 0 x
      in js_div (real n * sumXY - sumX * sumY) (real n * sumX2 - sumX * sumX))"

text \<open>
  The average of the readings of an hour: the array of an hour is created with its first
  reading, so its length is not 0.
\<close>

definition hourly_average :: "int \<times> real list \<Rightarrow> int \<times> real" where
  "hourly_average e = (fst e, reduce_sum (snd e) / real (length (snd e)))"

text \<open>
  \<open>hourlyAverages[0].hour\<close> raises when there is no reading. The sort is descending in
  the average, and stable.
\<close>

definition calculateAnalytics :: "int \<Rightarrow> usage list \<Rightarrow> error + PredictionAnalytics" where
  "calculateAnalytics tz usageData =
     (case analytics_loop tz usageData [] [] [] [] of
        (dailyUsage, hourlyUsage, weekdayUsage, weekendUsage) \<Rightarrow>
          (let dailyValues = map snd dailyUsage;
               hourlyAverages = sort_key (\<lambda>e. - snd e) (map hourly_average hourlyUsage)
           in if hourlyAverages = [] then Inl TypeError
              else Inr \<lparr> averageDailyUsage = js_div (reduce_sum dailyValues) (real (length dailyValues)),
                         peakUsageHour = fst (hd hourlyAverages),
                         lowestUsageHour = fst (last hourlyAverages),
                         weekdayAverage = js_div (reduce_sum weekdayUsage) (real (length weekdayUsage)),
                         weekendAverage = js_div (reduce_sum weekendUsage) (real (length weekendUsage)),
                         monthlyTrend = calculateTrend dailyValues \<rparr>))"

text \<open>The first loop of \<open>generatePredictions\<close>, over the readings.\<close>

fun patterns_loop ::
  "int \<Rightarrow> usage list \<Rightarrow> (int \<times> real list) list \<Rightarrow> (int \<times> real) list \<Rightarrow>
   (int \<times> real list) list \<times> (int \<times> real) list" where
  "patterns_loop tz [] dayOfWeekPatterns dailyUsage = (dayOfWeekPatterns, dailyUsage)"
| "patterns_loop tz (u # us) dayOfWeekPatterns dailyUsage =
     (let dayOfWeek = getDay tz (timestamp u);
          d = isoDate (timestamp u)
      in patterns_loop tz us
           (if map_of dayOfWeekPatterns dayOfWeek = None
            then map_set dayOfWeek [] dayOfWeekPatterns else dayOfWeekPatterns)
           (map_set d (get_or_zero dailyUsage d + kWh u) dailyUsage))"

text \<open>
  Its second loop, over the daily totals: \<open>new Date(date)\<close> is the midnight of the day
  in UTC, whose day of the week is read in the zone of the server, and
  \<open>dayOfWeekPatterns.get(dayOfWeek)!.push(total)\<close> raises when that day of the week is
  not a key.
\<close>

fun push_totals ::
  "int \<Rightarrow> (int \<times> real) list \<Rightarrow> (int \<times> real list) list \<Rightarrow> error + (int \<times> real list) list" where
  "push_totals tz [] dayOfWeekPatterns = Inr dayOfWeekPatterns"
| "push_totals tz ((d, dayTotal) # es) dayOfWeekPatterns =
     (let dayOfWeek = getDay tz (d * 86400000)
      in case map_of dayOfWeekPatterns dayOfWeek of
           None \<Rightarrow> Inl TypeError
         | Some vs \<Rightarrow> push_totals tz es (map_set dayOfWeek (vs @ [dayTotal]) dayOfWeekPatterns))"

definition day_average :: "int \<times> real list \<Rightarrow> int \<times> number" where
  "day_average e = (fst e, js_div (reduce_sum (snd e)) (real (length (snd e))))"

definition trend_of :: "number \<Rightarrow> trend_label" where
  "trend_of t =
     (if num_gt t 0.1 then increasing
      else if num_lt t (- 0.1) then decreasing
      else stable)"

definition confidence_at :: "nat \<Rightarrow> real \<Rightarrow> real" where
  "confidence_at i days = max 0.5 (1 - (real i / days) * 0.3)"

text \<open>
  The body of the loop over the days of the horizon: the prediction of day \<open>i\<close>.
  \<open>setDate(getDate() + i)\<close> moves the date by \<open>i\<close> days, which are \<open>i\<close> times
  86400000 milliseconds in a zone of fixed offset.
\<close>

definition prediction_at ::
  "int \<Rightarrow> nat \<Rightarrow> real \<Rightarrow> int \<Rightarrow> (int \<times> number) list \<Rightarrow> PredictionAnalytics \<Rightarrow>
   UsagePrediction" where
  "prediction_at tz i days lastDate dayOfWeekAverages a =
     (let predictionDate = lastDate + int i * 86400000;
          dayOfWeek = getDay tz predictionDate;
          baseUsage = or_number (map_of dayOfWeekAverages dayOfWeek) (averageDailyUsage a);
          trendAdjustment = num_times (monthlyTrend a) (real i);
          predicted = math_max0 (num_add baseUsage trendAdjustment);
          conf = confidence_at i days
      in \<lparr> date = isoDate predictionDate,
            predictedKWh = round2 predicted,
            confidence = real_of_int (math_round (conf * 100)) / 100,
            trend = trend_of (monthlyTrend a),
            estimatedCost = round2 (num_times predicted 0.15) \<rparr>)"

text \<open>
  The loop \<open>for (let i = 1; i <= days; i++)\<close>. The number of days is validated as a
  number between 1 and 90, not as an integer, so it is a real here.
\<close>

function predictions_loop ::
  "int \<Rightarrow> nat \<Rightarrow> real \<Rightarrow> int \<Rightarrow> (int \<times> number) list \<Rightarrow> PredictionAnalytics \<Rightarrow>
   UsagePrediction list \<Rightarrow> UsagePrediction list" where
  "predictions_loop tz i days lastDate dayOfWeekAverages a ps =
     (if real i \<le> days
      then predictions_loop tz (i + 1) days lastDate dayOfWeekAverages a
             (ps @ [prediction_at tz i days lastDate dayOfWeekAverages a])
      else ps)"
  by pat_completeness auto
termination
  by (relation "measure (\<lambda>(tz, i, days, lastDate, avgs, a, ps). nat (\<lfloor>days\<rfloor> + 1 - int i))")
     (auto simp: le_floor_iff)

declare predictions_loop.simps [simp del]

text \<open>\<open>usageData[usageData.length - 1].timestamp\<close> raises on an empty array.\<close>

definition generatePredictions ::
  "int \<Rightarrow> usage list \<Rightarrow> real \<Rightarrow> PredictionAnalytics \<Rightarrow> error + UsagePrediction list" where
  "generatePredictions tz usageData days a =
     (if usageData = [] then Inl TypeError
      else (let lastDate = timestamp (last usageData)
            in case patterns_loop tz usageData [] [] of
                 (dayOfWeekPatterns, dailyUsage) \<Rightarrow>
                   (case push_totals tz dailyUsage dayOfWeekPatterns of
                      Inl e \<Rightarrow> Inl e
                    | Inr patterns \<Rightarrow>
                        Inr (predictions_loop tz 1 days lastDate (map day_average patterns) a []))))"

text \<open>
  \<open>handlePrediction\<close> from the point where the usage rows of the account have been
  read: its arguments are the time zone of the server, these rows and the validated
  \<open>predictionDays\<close>.
\<close>

definition handlePrediction :: "int \<Rightarrow> usage list \<Rightarrow> real \<Rightarrow> error + PredictionResponse" where
  "handlePrediction tz usageData predictionDays =
     (if length usageData < 168 then Inl InsufficientData
      else (case calculateAnalytics tz usageData of
              Inl e \<Rightarrow> Inl e
            | Inr a \<Rightarrow>
                (case generatePredictions tz usageData predictionDays a of
                   Inl e \<Rightarrow> Inl e
                 | Inr ps \<Rightarrow> Inr \<lparr> predictions = ps, analytics = a,
                                    dataPoints = length usageData \<rparr>)))"

section \<open>The specification's formulations\<close>

text \<open>
  The tier accumulation as the specification words it: for each tier in order,
  \<open>consumed = min(remaining, tier.limitKWh)\<close>, \<open>cost += consumed * tier.ratePerKWh\<close>,
  \<open>remaining -= consumed\<close>, stopping once \<open>remaining <= 0\<close>. A limit is a number or
  unbounded (\<open>None\<close>); the number \<open>0\<close> is a limit like any other here.
\<close>

fun spec_tiered :: "tier list \<Rightarrow> real \<Rightarrow> real \<Rightarrow> real" where
  "spec_tiered [] cost remaining = cost"
| "spec_tiered (t # ts) cost remaining =
     (let consumed = (case limit t of None \<Rightarrow> remaining | Some l \<Rightarrow> min remaining l);
          cost' = cost + consumed * rate t;
          remaining' = remaining - consumed
      in if remaining' \<le> 0 then cost' else spec_tiered ts cost' remaining')"

text \<open>The limit of a bounded tier.\<close>

definition limitKWh :: "tier \<Rightarrow> real" where
  "limitKWh t = (case limit t of None \<Rightarrow> 0 | Some l \<Rightarrow> l)"

text \<open>
  The rate table of a time-of-use plan: the on-peak hours are \<open>[7, 11)\<close> and
  \<open>[17, 19)\<close>, the mid-peak hours \<open>[11, 17)\<close>, and every other hour is off-peak.
\<close>

definition spec_tou_rate :: "real \<Rightarrow> real \<Rightarrow> real \<Rightarrow> int \<Rightarrow> real" where
  "spec_tou_rate off mid on h =
     (if h \<in> {7..<11} \<union> {17..<19} then on else if h \<in> {11..<17} then mid else off)"

text \<open>
  The number of distinct calendar days that a usage series covers.
\<close>

definition distinct_days :: "usage list \<Rightarrow> nat" where
  "distinct_days usageData = length (remdups (map (\<lambda>u. isoDate (timestamp u)) usageData))"

text \<open>
  The day of the week that the second loop of \<open>generatePredictions\<close> looks up for the
  day of each reading is a day of the week of some reading.
\<close>

definition weekdays_known :: "int \<Rightarrow> usage list \<Rightarrow> bool" where
  "weekdays_known tz usageData =
     list_all (\<lambda>u. getDay tz (isoDate (timestamp u) * 86400000)
                    \<in> set (map (\<lambda>v. getDay tz (timestamp v)) usageData)) usageData"

section \<open>Example data\<close>

text \<open>
  A week of one reading a day at noon, a week of hourly readings, and 168 readings a
  minute apart within one day.
\<close>

definition daily_week :: "usage list" where
  "daily_week = map (\<lambda>d. \<lparr> timestamp = int d * 86400000 + 43200000, kWh = 24 \<rparr>) [0..<7]"

definition hourly_week :: "usage list" where
  "hourly_week = map (\<lambda>h. \<lparr> timestamp = int h * 3600000, kWh = 1 \<rparr>) [0..<168]"

definition minute_readings :: "usage list" where
  "minute_readings = map (\<lambda>m. \<lparr> timestamp = int m * 60000, kWh = 1 \<rparr>) [0..<168]"

text \<open>The same from noon, and the zone five hours behind UTC.\<close>

definition noon_readings :: "usage list" where
  "noon_readings = map (\<lambda>m. \<lparr> timestamp = 43200000 + int m * 60000, kWh = 1 \<rparr>) [0..<168]"

definition utc_minus_5 :: int where
  "utc_minus_5 = - 18000000"

text \<open>
  A usage series of 100 kWh and three plans of the region \<open>TX\<close>, one of them not
  active.
\<close>

definition usage_100 :: "usage list" where
  "usage_100 = [\<lparr> timestamp = 0, kWh = 60 \<rparr>, \<lparr> timestamp = 3600000, kWh = 40 \<rparr>]"

definition flat_plan :: plan where
  "flat_plan = \<lparr> plan_id = ''flat'', plan_name = ''Flat 10'', plan_provider = ''Acme'',
     plan_region = ''TX'', plan_active = True,
     plan_schema = \<lparr> type = Some ''fixed'', baseRate = Some 0.10, tiers = None, periods = None,
       greenEnergy = False, rewards = False \<rparr> \<rparr>"

definition tiered_plan :: plan where
  "tiered_plan = \<lparr> plan_id = ''tiered'', plan_name = ''Two tiers'', plan_provider = ''Bolt'',
     plan_region = ''TX'', plan_active = True,
     plan_schema = \<lparr> type = Some ''tiered'', baseRate = None,
       tiers = Some [\<lparr> limit = Some 50, rate = 0.05 \<rparr>, \<lparr> limit = None, rate = 0.10 \<rparr>],
       periods = None, greenEnergy = True, rewards = False \<rparr> \<rparr>"

definition inactive_plan :: plan where
  "inactive_plan = \<lparr> plan_id = ''old'', plan_name = ''Withdrawn'', plan_provider = ''Acme'',
     plan_region = ''TX'', plan_active = False,
     plan_schema = \<lparr> type = Some ''fixed'', baseRate = Some 0.01, tiers = None, periods = None,
       greenEnergy = False, rewards = False \<rparr> \<rparr>"

section \<open>Sums and loops\<close>

lemma foldl_add_kWh: "foldl (\<lambda>sum u. sum + kWh u) a us = a + sum_list (map kWh us)"
  by (induction us arbitrary: a) auto

lemma sum_kWh_eq: "sum_kWh us = sum_list (map kWh us)"
  by (simp add: sum_kWh_def foldl_add_kWh)

lemma tou_loop_eq:
  "tou_loop tz p us c = c + (\<Sum>u\<leftarrow>us. kWh u * rate_for_hour p (getHours tz (timestamp u)))"
  by (induction us arbitrary: c) auto

lemma min_limit_spec:
  "limit t \<noteq> Some 0 \<Longrightarrow>
   min_limit r (limit t) = (case limit t of None \<Rightarrow> r | Some l \<Rightarrow> min r l)"
  by (auto simp: min_limit_def split: option.splits)

lemma tier_loop_spec:
  "\<forall>t\<in>set ts. limit t \<noteq> Some 0 \<Longrightarrow> tier_loop ts c r = spec_tiered ts c r"
proof (induction ts arbitrary: c r)
  case Nil
  then show ?case by simp
next
  case (Cons t ts)
  then have "limit t \<noteq> Some 0" by simp
  then show ?case using Cons by (simp add: min_limit_spec Let_def)
qed

lemma tier_loop_exhausted:
  "\<forall>t\<in>set ts. \<exists>l. limit t = Some l \<and> 0 < l \<Longrightarrow> sum_list (map limitKWh ts) \<le> r \<Longrightarrow>
   tier_loop ts c r = c + (\<Sum>t\<leftarrow>ts. limitKWh t * rate t)"
proof (induction ts arbitrary: c r)
  case Nil
  then show ?case by simp
next
  case (Cons t ts)
  then obtain l where l: "limit t = Some l" "0 < l" by auto
  have nonneg: "0 \<le> sum_list (map limitKWh ts)"
    using Cons.prems(1) by (intro sum_list_nonneg) (auto simp: limitKWh_def)
  from l have lt: "limitKWh t = l" by (simp add: limitKWh_def)
  from Cons.prems(2) lt have le: "l + sum_list (map limitKWh ts) \<le> r"
    by simp
  with nonneg have m: "min_limit r (limit t) = l"
    using l by (simp add: min_limit_def)
  show ?case
  proof (cases "r - l \<le> 0")
    case True
    with le nonneg have z: "sum_list (map limitKWh ts) = 0" by linarith
    have "ts = []"
    proof (rule ccontr)
      assume "ts \<noteq> []"
      then obtain t' ts' where ts: "ts = t' # ts'" by (cases ts) auto
      with Cons.prems(1) obtain l' where "limit t' = Some l'" "0 < l'" by auto
      then have "0 < limitKWh t'" by (simp add: limitKWh_def)
      moreover have "0 \<le> sum_list (map limitKWh ts')"
        using Cons.prems(1) ts by (intro sum_list_nonneg) (auto simp: limitKWh_def)
      ultimately show False using z ts by simp
    qed
    with True m lt show ?thesis by simp
  next
    case False
    have "tier_loop ts (c + l * rate t) (r - l) = (c + l * rate t) + (\<Sum>t\<leftarrow>ts. limitKWh t * rate t)"
      using Cons.prems(1) le by (intro Cons.IH) auto
    with False m lt show ?thesis by simp
  qed
qed

lemma tier_loop_unbounded:
  "limit t = None \<or> limit t = Some 0 \<Longrightarrow> tier_loop (t # post) c r = c + r * rate t"
  by (auto simp: min_limit_def)

lemma tier_loop_cut:
  "limit t = None \<or> limit t = Some 0 \<Longrightarrow>
   tier_loop (pre @ t # post) c r = tier_loop (pre @ [t]) c r"
proof (induction pre arbitrary: c r)
  case Nil
  then show ?case by (auto simp: min_limit_def)
next
  case (Cons a pre)
  then show ?case by (simp add: Let_def)
qed

lemma rate_for_hour_spec:
  "rate_for_hour p h =
     spec_tou_rate (or_default (offPeak p) 0.08) (or_default (midPeak p) 0.13)
       (or_default (onPeak p) 0.18) h"
  by (simp add: rate_for_hour_def spec_tou_rate_def)

section \<open>The ranker: auxiliary facts\<close>

lemma map_plans_list_all2:
  "map_plans f ps = Inr cs \<Longrightarrow> list_all2 (\<lambda>p c. f p = Inr c) ps cs"
proof (induction ps arbitrary: cs)
  case Nil
  then show ?case by simp
next
  case (Cons p ps)
  then show ?case by (auto split: sum.splits)
qed

lemma compare_plan_planId: "compare_plan tz prov U p = Inr c \<Longrightarrow> planId c = plan_id p"
  by (auto simp: compare_plan_def Let_def split: sum.splits)

lemma compare_plan_no_provider:
  "\<not> truthy prov \<Longrightarrow> compare_plan tz prov U p = Inr c \<Longrightarrow> estimatedAnnualSavings c = 0"
  by (auto simp: compare_plan_def Let_def split: sum.splits)

lemma map_plans_planId:
  assumes "map_plans (compare_plan tz prov U) ps = Inr cs"
  shows "map planId cs = map plan_id ps"
proof -
  from assms have "list_all2 (\<lambda>p c. compare_plan tz prov U p = Inr c) ps cs"
    by (rule map_plans_list_all2)
  then have "list_all2 (\<lambda>p c. plan_id p = planId c) ps cs"
    by (rule list_all2_mono) (simp add: compare_plan_planId)
  then show ?thesis
    by (induction rule: list_all2_induct) auto
qed

lemma map_plans_length: "map_plans f ps = Inr cs \<Longrightarrow> length cs = length ps"
  using map_plans_list_all2 [of f ps cs] by (simp add: list_all2_lengthD)

lemma map_plans_no_provider:
  assumes "\<not> truthy prov" and "map_plans (compare_plan tz prov U) ps = Inr cs"
  shows "\<forall>c\<in>set cs. estimatedAnnualSavings c = 0"
proof
  fix c assume "c \<in> set cs"
  moreover from assms(2) have "list_all2 (\<lambda>p c. compare_plan tz prov U p = Inr c) ps cs"
    by (rule map_plans_list_all2)
  ultimately obtain p where "compare_plan tz prov U p = Inr c"
    by (auto simp: list_all2_conv_all_nth in_set_conv_nth)
  with assms(1) show "estimatedAnnualSavings c = 0"
    by (rule compare_plan_no_provider)
qed

lemma sort_key_all_equal:
  assumes "\<forall>x\<in>set xs. f x = k"
  shows "sort_key f xs = xs"
proof -
  have "filter (\<lambda>y. f y = k) (sort_key f xs) = filter (\<lambda>y. f y = k) xs"
    by (rule sort_key_stable)
  moreover have "filter (\<lambda>y. f y = k) (sort_key f xs) = sort_key f xs"
    using assms by (intro filter_True) simp
  moreover have "filter (\<lambda>y. f y = k) xs = xs"
    using assms by (intro filter_True) simp
  ultimately show ?thesis by simp
qed

lemma sorted_sort_by_savings:
  "sorted_wrt (\<lambda>a b. estimatedAnnualSavings a \<ge> estimatedAnnualSavings b) (sort_by_savings cs)"
proof -
  have "sorted (map (\<lambda>c. - estimatedAnnualSavings c) (sort_by_savings cs))"
    unfolding sort_by_savings_def by (rule sorted_sort_key)
  then show ?thesis by (simp add: sorted_map)
qed

lemma handleCompare_Inr:
  assumes "handleCompare tz prov U catalog region = Inr resp"
  obtains cs where "map_plans (compare_plan tz prov U) (findMany_plans catalog region) = Inr cs"
    and "recommendations resp = take 5 (sort_by_savings cs)"
  using assms by (auto simp: handleCompare_def Let_def split: sum.splits)

lemma calculatePlanCost_Inr:
  "type s = Some ''tou'' \<longrightarrow> periods s \<noteq> None \<Longrightarrow> \<exists>c. calculatePlanCost tz s U = Inr c"
  by (auto simp: calculatePlanCost_def calculateTOUCost_def Let_def split: option.splits)

lemma compare_plan_Inr:
  assumes "type (plan_schema p) = Some ''tou'' \<longrightarrow> periods (plan_schema p) \<noteq> None"
  shows "\<exists>c. compare_plan tz prov U p = Inr c"
proof -
  from calculatePlanCost_Inr [OF assms] obtain c
    where "calculatePlanCost tz (plan_schema p) U = Inr c" by blast
  then show ?thesis by (simp add: compare_plan_def Let_def)
qed

lemma map_plans_Inr: "\<forall>p\<in>set ps. \<exists>c. f p = Inr c \<Longrightarrow> \<exists>cs. map_plans f ps = Inr cs"
  by (induction ps) auto

text \<open>
  The comparison returns a response whenever every time-of-use plan of the catalogue has
  its \<open>periods\<close>.
\<close>

lemma handleCompare_returns:
  assumes "\<forall>p\<in>set catalog. type (plan_schema p) = Some ''tou'' \<longrightarrow> periods (plan_schema p) \<noteq> None"
  shows "\<exists>resp. handleCompare tz prov U catalog region = Inr resp"
proof -
  have "\<forall>p\<in>set (findMany_plans catalog region). \<exists>c. compare_plan tz prov U p = Inr c"
    using assms by (auto simp: findMany_plans_def intro: compare_plan_Inr)
  then obtain cs where "map_plans (compare_plan tz prov U) (findMany_plans catalog region) = Inr cs"
    using map_plans_Inr by blast
  then show ?thesis by (simp add: handleCompare_def Let_def)
qed

lemmas example_defs = usage_100_def flat_plan_def tiered_plan_def inactive_plan_def
  handleCompare_def findMany_plans_def compare_plan_def calculatePlanCost_def
  calculateTieredCost_def calculateCurrentCost_def sum_kWh_def or_default_def min_limit_def
  truthy_def sort_by_savings_def getPlanType_def getPlanFeatures_def

lemma flat_plan_cost: "calculatePlanCost 0 (plan_schema flat_plan) usage_100 = Inr 10"
  by (simp add: example_defs)

section \<open>The prediction route: auxiliary facts\<close>

lemma length_examples: "length minute_readings = 168" "length hourly_week = 168" "length daily_week = 7"
  by (simp_all add: minute_readings_def hourly_week_def daily_week_def)

lemma distinct_days_daily_week: "distinct_days daily_week = 7"
  by code_simp

lemma distinct_days_hourly_week: "distinct_days hourly_week = 7"
  by code_simp

lemma distinct_days_minute_readings: "distinct_days minute_readings = 1"
  by code_simp

lemma map_set_keys: "fst ` set (map_set k v m) = insert k (fst ` set m)"
proof (induction m)
  case Nil
  show ?case by simp
next
  case (Cons e m)
  obtain a b where e: "e = (a, b)" by (cases e) auto
  show ?case
  proof (cases "a = k")
    case True
    with e show ?thesis by simp
  next
    case False
    with e Cons show ?thesis by auto
  qed
qed

lemma map_set_not_Nil: "map_set k v m \<noteq> []"
  by (cases m) (auto split: if_splits)

lemma analytics_loop_hourly:
  "us \<noteq> [] \<or> hourlyUsage \<noteq> [] \<Longrightarrow>
   fst (snd (analytics_loop tz us dailyUsage hourlyUsage weekdayUsage weekendUsage)) \<noteq> []"
proof (induction us arbitrary: dailyUsage hourlyUsage weekdayUsage weekendUsage)
  case Nil
  then show ?case by simp
next
  case (Cons u us)
  have "map_push (getHours tz (timestamp u)) (kWh u) hourlyUsage \<noteq> []"
    by (simp add: map_push_def map_set_not_Nil)
  then show ?case by (simp add: Let_def Cons.IH)
qed

lemma calculateAnalytics_Inr:
  assumes "usageData \<noteq> []"
  shows "\<exists>a. calculateAnalytics tz usageData = Inr a"
proof -
  obtain dU hU wd we where l: "analytics_loop tz usageData [] [] [] [] = (dU, hU, wd, we)"
    by (cases "analytics_loop tz usageData [] [] [] []") auto
  from analytics_loop_hourly [of usageData "[]" tz "[]" "[]" "[]"] assms l have "hU \<noteq> []"
    by simp
  then have "length (sort_key (\<lambda>e. - snd e) (map hourly_average hU)) \<noteq> 0"
    by simp
  then have "sort_key (\<lambda>e. - snd e) (map hourly_average hU) \<noteq> []"
    by (simp only: length_0_conv not_False_eq_True)
  with l show ?thesis by (simp add: calculateAnalytics_def Let_def)
qed

lemma calculateAnalytics_trend:
  "calculateAnalytics tz usageData = Inr a \<Longrightarrow>
   monthlyTrend a = calculateTrend (map snd (fst (analytics_loop tz usageData [] [] [] [])))"
  by (auto simp: calculateAnalytics_def Let_def split: prod.splits if_splits)

text \<open>
  In UTC the midnight of the day of a reading falls on the day of the week of the reading.
\<close>

lemma getDay_isoDate: "getDay 0 (isoDate ts * 86400000) = getDay 0 ts"
  by (simp add: getDay_def isoDate_def)

lemma weekdays_known_iff:
  "weekdays_known tz U \<longleftrightarrow>
     (\<forall>u\<in>set U. getDay tz (isoDate (timestamp u) * 86400000)
                   \<in> (\<lambda>v. getDay tz (timestamp v)) ` set U)"
  by (simp add: weekdays_known_def list_all_iff)

lemma weekdays_known_UTC: "weekdays_known 0 U"
  by (auto simp: weekdays_known_iff getDay_isoDate)

lemma patterns_loop_keys:
  "patterns_loop tz us p dU = (p', dU') \<Longrightarrow>
   fst ` set p' = fst ` set p \<union> (\<lambda>u. getDay tz (timestamp u)) ` set us \<and>
   fst ` set dU' = fst ` set dU \<union> (\<lambda>u. isoDate (timestamp u)) ` set us"
proof (induction us arbitrary: p dU)
  case Nil
  then show ?case by simp
next
  case (Cons u us)
  let ?p = "if map_of p (getDay tz (timestamp u)) = None
            then map_set (getDay tz (timestamp u)) [] p else p"
  let ?dU = "map_set (isoDate (timestamp u)) (get_or_zero dU (isoDate (timestamp u)) + kWh u) dU"
  from Cons.prems have "patterns_loop tz us ?p ?dU = (p', dU')"
    by (simp add: Let_def)
  from Cons.IH [OF this]
  have "fst ` set p' = fst ` set ?p \<union> (\<lambda>u. getDay tz (timestamp u)) ` set us"
    and "fst ` set dU' = fst ` set ?dU \<union> (\<lambda>u. isoDate (timestamp u)) ` set us"
    by auto
  moreover have "fst ` set ?p = insert (getDay tz (timestamp u)) (fst ` set p)"
    by (auto simp: map_set_keys map_of_eq_None_iff)
  moreover have "fst ` set ?dU = insert (isoDate (timestamp u)) (fst ` set dU)"
    by (simp add: map_set_keys)
  ultimately show ?case by auto
qed

text \<open>
  The second loop of \<open>generatePredictions\<close> raises nothing when the day of the week
  that it looks up for every daily total is a key, and a \<open>TypeError\<close> otherwise.
\<close>

lemma push_totals_Inr:
  "\<forall>e\<in>set es. getDay tz (fst e * 86400000) \<in> fst ` set m \<Longrightarrow> \<exists>m'. push_totals tz es m = Inr m'"
proof (induction es arbitrary: m)
  case Nil
  then show ?case by simp
next
  case (Cons e es)
  obtain d t where e: "e = (d, t)" by (cases e) auto
  with Cons.prems have "getDay tz (d * 86400000) \<in> fst ` set m" by simp
  then obtain vs where vs: "map_of m (getDay tz (d * 86400000)) = Some vs"
    by (cases "map_of m (getDay tz (d * 86400000))") (auto simp: map_of_eq_None_iff)
  have "\<forall>e\<in>set es. getDay tz (fst e * 86400000)
      \<in> fst ` set (map_set (getDay tz (d * 86400000)) (vs @ [t]) m)"
    using Cons.prems by (simp add: map_set_keys)
  from Cons.IH [OF this] show ?case using e vs by (simp add: Let_def)
qed

lemma push_totals_TypeError:
  "\<exists>e\<in>set es. getDay tz (fst e * 86400000) \<notin> fst ` set m \<Longrightarrow> push_totals tz es m = Inl TypeError"
proof (induction es arbitrary: m)
  case Nil
  then show ?case by simp
next
  case (Cons e es)
  obtain d t where e: "e = (d, t)" by (cases e) auto
  show ?case
  proof (cases "map_of m (getDay tz (d * 86400000))")
    case None
    with e show ?thesis by (simp add: Let_def)
  next
    case (Some vs)
    then have here: "getDay tz (d * 86400000) \<in> fst ` set m"
      by (metis map_of_eq_None_iff option.distinct(1))
    with Cons.prems e have "\<exists>e\<in>set es. getDay tz (fst e * 86400000) \<notin> fst ` set m"
      by auto
    moreover have "fst ` set (map_set (getDay tz (d * 86400000)) (vs @ [t]) m) = fst ` set m"
      using here by (auto simp: map_set_keys)
    ultimately have "\<exists>e\<in>set es. getDay tz (fst e * 86400000)
        \<notin> fst ` set (map_set (getDay tz (d * 86400000)) (vs @ [t]) m)"
      by simp
    from Cons.IH [OF this] show ?thesis using e Some by (simp add: Let_def)
  qed
qed

lemma push_totals_error: "push_totals tz es m = Inl e \<Longrightarrow> e = TypeError"
proof (induction es arbitrary: m)
  case Nil
  then show ?case by simp
next
  case (Cons x es)
  obtain d t where "x = (d, t)" by (cases x) auto
  with Cons show ?case by (auto simp: Let_def split: option.splits)
qed

lemma patterns_loop_result:
  assumes "patterns_loop tz usageData [] [] = (p, dU)"
  shows "(\<forall>e\<in>set dU. getDay tz (fst e * 86400000) \<in> fst ` set p) \<longleftrightarrow>
         weekdays_known tz usageData"
proof -
  from patterns_loop_keys [OF assms]
  have keys: "fst ` set p = (\<lambda>u. getDay tz (timestamp u)) ` set usageData"
    and days: "fst ` set dU = (\<lambda>u. isoDate (timestamp u)) ` set usageData"
    by auto
  have "(\<forall>e\<in>set dU. getDay tz (fst e * 86400000) \<in> fst ` set p) \<longleftrightarrow>
        (\<forall>d\<in>fst ` set dU. getDay tz (d * 86400000) \<in> fst ` set p)"
    by auto
  also have "\<dots> \<longleftrightarrow> (\<forall>u\<in>set usageData. getDay tz (isoDate (timestamp u) * 86400000)
      \<in> (\<lambda>v. getDay tz (timestamp v)) ` set usageData)"
    unfolding keys days by auto
  finally show ?thesis by (simp add: weekdays_known_iff)
qed

lemma generatePredictions_Inr:
  assumes "usageData \<noteq> []" and "weekdays_known tz usageData"
  shows "\<exists>ps. generatePredictions tz usageData days a = Inr ps"
proof -
  obtain p dU where l: "patterns_loop tz usageData [] [] = (p, dU)"
    by (cases "patterns_loop tz usageData [] []") auto
  from patterns_loop_result [OF l] assms(2)
  have "\<forall>e\<in>set dU. getDay tz (fst e * 86400000) \<in> fst ` set p" by simp
  then obtain m' where "push_totals tz dU p = Inr m'"
    using push_totals_Inr by blast
  with l assms(1) show ?thesis by (simp add: generatePredictions_def Let_def)
qed

text \<open>
  Off UTC the lookup can fail: the predictions raise a \<open>TypeError\<close> exactly when the
  series is empty or some day of the week looked up is not one of a reading.
\<close>

lemma generatePredictions_TypeError:
  assumes "usageData = [] \<or> \<not> weekdays_known tz usageData"
  shows "generatePredictions tz usageData days a = Inl TypeError"
proof (cases "usageData = []")
  case True
  then show ?thesis by (simp add: generatePredictions_def)
next
  case False
  with assms have nk: "\<not> weekdays_known tz usageData" by simp
  obtain p dU where l: "patterns_loop tz usageData [] [] = (p, dU)"
    by (cases "patterns_loop tz usageData [] []") auto
  from patterns_loop_result [OF l] nk
  have "\<exists>e\<in>set dU. getDay tz (fst e * 86400000) \<notin> fst ` set p" by blast
  then have "push_totals tz dU p = Inl TypeError"
    by (rule push_totals_TypeError)
  with l False show ?thesis by (simp add: generatePredictions_def Let_def)
qed

lemma generatePredictions_error: "generatePredictions tz usageData days a = Inl e \<Longrightarrow> e = TypeError"
  by (auto simp: generatePredictions_def Let_def split: if_splits prod.splits sum.splits
      dest: push_totals_error)

lemma calculateAnalytics_error: "calculateAnalytics tz usageData = Inl e \<Longrightarrow> e = TypeError"
  by (auto simp: calculateAnalytics_def Let_def split: prod.splits if_splits)

lemma generatePredictions_loop:
  assumes "generatePredictions tz usageData days a = Inr ps"
  obtains avgs where "ps = predictions_loop tz 1 days (timestamp (last usageData)) avgs a []"
  using assms
  by (auto simp: generatePredictions_def Let_def split: if_splits prod.splits sum.splits)

lemma handlePrediction_guard:
  "handlePrediction tz U d = Inl InsufficientData \<longleftrightarrow> length U < 168"
proof
  assume h: "handlePrediction tz U d = Inl InsufficientData"
  show "length U < 168"
  proof (rule ccontr)
    assume "\<not> length U < 168"
    with h have "calculateAnalytics tz U = Inl InsufficientData \<or>
        (\<exists>a. generatePredictions tz U d a = Inl InsufficientData)"
      by (auto simp: handlePrediction_def split: sum.splits)
    then show False
      using calculateAnalytics_error generatePredictions_error by blast
  qed
next
  assume "length U < 168"
  then show "handlePrediction tz U d = Inl InsufficientData"
    by (simp add: handlePrediction_def)
qed

lemma handlePrediction_Inr:
  assumes "168 \<le> length U" and "weekdays_known tz U"
  shows "\<exists>r. handlePrediction tz U d = Inr r \<and> dataPoints r = length U"
proof -
  from assms(1) have ne: "U \<noteq> []" by auto
  from calculateAnalytics_Inr [OF ne] obtain a where a: "calculateAnalytics tz U = Inr a" by blast
  from generatePredictions_Inr [OF ne assms(2)] obtain ps
    where "generatePredictions tz U d a = Inr ps" by blast
  with a assms(1) show ?thesis by (simp add: handlePrediction_def)
qed

lemma handlePrediction_TypeError:
  assumes "168 \<le> length U" and "\<not> weekdays_known tz U"
  shows "handlePrediction tz U d = Inl TypeError"
proof -
  from assms(1) have ne: "U \<noteq> []" by auto
  from calculateAnalytics_Inr [OF ne] obtain a where a: "calculateAnalytics tz U = Inr a" by blast
  have "generatePredictions tz U d a = Inl TypeError"
    using assms(2) by (intro generatePredictions_TypeError) simp
  with a assms(1) show ?thesis by (simp add: handlePrediction_def)
qed

lemma weekdays_known_noon_readings: "\<not> weekdays_known utc_minus_5 noon_readings"
  by code_simp

text \<open>
  In the zone five hours behind UTC, 168 readings from noon of one day pass the
  precondition and then raise: the readings are of a Thursday, and the midnight of their
  day in UTC is of the Wednesday there.
\<close>

lemma handlePrediction_off_UTC: "handlePrediction utc_minus_5 noon_readings 30 = Inl TypeError"
  using handlePrediction_TypeError [where U = noon_readings and tz = utc_minus_5 and d = 30]
    weekdays_known_noon_readings
  by (simp add: noon_readings_def)

lemma predictions_loop_eq:
  "1 \<le> i \<Longrightarrow>
   predictions_loop tz i days lastDate avgs a ps =
     ps @ map (\<lambda>j. prediction_at tz j days lastDate avgs a) [i..<Suc (nat \<lfloor>days\<rfloor>)]"
proof (induction tz i days lastDate avgs a ps rule: predictions_loop.induct)
  case (1 tz i days lastDate avgs a ps)
  show ?case
  proof (cases "real i \<le> days")
    case True
    then have "int i \<le> \<lfloor>days\<rfloor>" by (simp add: le_floor_iff)
    then have "i < Suc (nat \<lfloor>days\<rfloor>)" by linarith
    then have u: "[i..<Suc (nat \<lfloor>days\<rfloor>)] = i # [Suc i..<Suc (nat \<lfloor>days\<rfloor>)]"
      by (rule upt_conv_Cons)
    from True "1.IH" have "predictions_loop tz (i + 1) days lastDate avgs a
             (ps @ [prediction_at tz i days lastDate avgs a]) =
        (ps @ [prediction_at tz i days lastDate avgs a]) @
        map (\<lambda>j. prediction_at tz j days lastDate avgs a) [i + 1..<Suc (nat \<lfloor>days\<rfloor>)]"
      by simp
    with True u show ?thesis
      by (subst predictions_loop.simps) simp
  next
    case False
    then have "\<lfloor>days\<rfloor> < int i" by (simp add: floor_less_iff)
    then have "Suc (nat \<lfloor>days\<rfloor>) \<le> i" using "1.prems" by linarith
    then have "[i..<Suc (nat \<lfloor>days\<rfloor>)] = []" by simp
    with False show ?thesis
      by (subst predictions_loop.simps) simp
  qed
qed

lemma confidence_prediction_at:
  "confidence (prediction_at tz j days lastDate avgs a) =
     real_of_int (math_round (confidence_at j days * 100)) / 100"
  by (simp add: prediction_at_def Let_def)

lemma trend_prediction_at:
  "trend (prediction_at tz j days lastDate avgs a) = trend_of (monthlyTrend a)"
  by (simp add: prediction_at_def Let_def)

lemma generatePredictions_confidences:
  assumes "generatePredictions tz usageData days a = Inr ps"
  shows "map confidence ps =
           map (\<lambda>j. real_of_int (math_round (confidence_at j days * 100)) / 100)
             [1..<Suc (nat \<lfloor>days\<rfloor>)]"
proof -
  from assms obtain avgs
    where "ps = predictions_loop tz 1 days (timestamp (last usageData)) avgs a []"
    by (rule generatePredictions_loop)
  then show ?thesis
    by (simp add: predictions_loop_eq confidence_prediction_at comp_def del: upt_Suc)
qed

lemma generatePredictions_trends:
  assumes "generatePredictions tz usageData days a = Inr ps"
  shows "list_all (\<lambda>p. trend p = trend_of (monthlyTrend a)) ps"
proof -
  from assms obtain avgs
    where "ps = predictions_loop tz 1 days (timestamp (last usageData)) avgs a []"
    by (rule generatePredictions_loop)
  then show ?thesis
    by (simp add: predictions_loop_eq trend_prediction_at list_all_iff del: upt_Suc)
qed

lemma confidence_at_antimono:
  assumes "0 < days" and "i \<le> j"
  shows "confidence_at j days \<le> confidence_at i days"
proof -
  from assms have "real i / days \<le> real j / days"
    by (simp add: divide_right_mono)
  then show ?thesis by (simp add: confidence_at_def max_def)
qed

lemma rounded_confidence_antimono:
  assumes "0 < days" and "i \<le> j"
  shows "real_of_int (math_round (confidence_at j days * 100)) / 100
       \<le> real_of_int (math_round (confidence_at i days * 100)) / 100"
proof -
  have "confidence_at j days * 100 + 1 / 2 \<le> confidence_at i days * 100 + 1 / 2"
    using confidence_at_antimono [OF assms] by simp
  then have "math_round (confidence_at j days * 100) \<le> math_round (confidence_at i days * 100)"
    unfolding math_round_def by (rule floor_mono)
  then show ?thesis by (simp add: divide_right_mono)
qed

lemma rounded_confidence_lower:
  "1 / 2 \<le> real_of_int (math_round (confidence_at i days * 100)) / 100"
proof -
  have "1 / 2 \<le> confidence_at i days" by (simp add: confidence_at_def)
  then have "real_of_int 50 \<le> confidence_at i days * 100 + 1 / 2" by simp
  then have "50 \<le> math_round (confidence_at i days * 100)"
    unfolding math_round_def by (simp only: le_floor_iff)
  then show ?thesis by simp
qed

lemma calculateTrend_degenerate: "length values < 2 \<Longrightarrow> calculateTrend values = NaN"
proof (cases "values")
  case Nil
  then show ?thesis by (simp add: calculateTrend_def js_div_def)
next
  case (Cons v vs)
  assume "length values < 2"
  with Cons have "vs = []" by simp
  with Cons show ?thesis by (simp add: calculateTrend_def js_div_def)
qed

lemma trend_of_NaN: "trend_of NaN = stable"
  by (simp add: trend_of_def)

section \<open>The plan cost calculator: properties\<close>

text \<open>
  C5, as the code has it. A plan is flat when its type is neither \<open>tiered\<close> nor
  \<open>tou\<close>. For every usage series and every flat plan with a rate \<open>r\<close> other than 0,
  the cost is \<open>r\<close> times the sum of the kWh of all readings; a rate that is absent or 0
  is replaced by the default rate 0.12; the empty series costs 0 in every case.
\<close>

theorem flat_cost:
  assumes "type s \<noteq> Some ''tiered''" and "type s \<noteq> Some ''tou''"
  shows "(baseRate s = Some r \<and> r \<noteq> 0 \<longrightarrow>
            calculatePlanCost tz s U = Inr (r * sum_list (map kWh U)))
       \<and> (baseRate s = None \<or> baseRate s = Some 0 \<longrightarrow>
            calculatePlanCost tz s U = Inr (0.12 * sum_list (map kWh U)))
       \<and> calculatePlanCost tz s [] = Inr 0"
  using assms by (auto simp: calculatePlanCost_def or_default_def sum_kWh_eq)

theorem flat_cost_witness:
  "calculatePlanCost 0 \<lparr> type = Some ''fixed'', baseRate = Some 0.12, tiers = None, periods = None,
       greenEnergy = False, rewards = False \<rparr>
     [\<lparr> timestamp = 0, kWh = 10 \<rparr>, \<lparr> timestamp = 3600000, kWh = 5 \<rparr>] = Inr 1.80"
  using flat_cost [where tz = 0 and r = "0.12"
     and s = "\<lparr> type = Some ''fixed'', baseRate = Some 0.12, tiers = None, periods = None,
       greenEnergy = False, rewards = False \<rparr>"
     and U = "[\<lparr> timestamp = 0, kWh = 10 \<rparr>, \<lparr> timestamp = 3600000, kWh = 5 \<rparr>]"]
  by simp

text \<open>
  C5 as stated fails for the rate 0: two readings of 10 and 5 kWh cost 1.80 under a flat
  plan whose rate is 0, not \<open>0 * 15\<close>.
\<close>

theorem flat_cost_zero_rate_counterexample:
  "calculatePlanCost 0 \<lparr> type = Some ''fixed'', baseRate = Some 0, tiers = None, periods = None,
       greenEnergy = False, rewards = False \<rparr>
     [\<lparr> timestamp = 0, kWh = 10 \<rparr>, \<lparr> timestamp = 3600000, kWh = 5 \<rparr>]
   \<noteq> Inr (0 * sum_list (map kWh [\<lparr> timestamp = 0, kWh = 10 \<rparr>, \<lparr> timestamp = 3600000, kWh = 5 \<rparr>]))"
  by (simp add: calculatePlanCost_def or_default_def sum_kWh_def)

text \<open>
  C1, as the code has it. For every tiered plan none of whose tiers has the limit 0, the
  cost is the specification's accumulation over the total kWh of the series: tier by tier
  in the listed order, \<open>consumed = min(remaining, limit)\<close>, stopping once nothing
  remains. When every tier is bounded and the total exceeds the sum of the limits, the
  cost is the sum of \<open>limit * rate\<close> over the tiers: the excess is not charged.
\<close>

theorem tiered_cost:
  assumes "type s = Some ''tiered''" and "tiers s = Some ts"
  shows "((\<forall>t\<in>set ts. limit t \<noteq> Some 0) \<longrightarrow>
            calculatePlanCost tz s U = Inr (spec_tiered ts 0 (sum_list (map kWh U))))
       \<and> ((\<forall>t\<in>set ts. \<exists>l. limit t = Some l \<and> 0 < l) \<and>
            sum_list (map limitKWh ts) \<le> sum_list (map kWh U) \<longrightarrow>
            calculatePlanCost tz s U = Inr (\<Sum>t\<leftarrow>ts. limitKWh t * rate t))"
  using assms tier_loop_spec [of ts 0 "sum_list (map kWh U)"]
    tier_loop_exhausted [of ts "sum_list (map kWh U)" 0]
  by (simp add: calculatePlanCost_def calculateTieredCost_def sum_kWh_eq)

theorem tiered_cost_witness:
  "calculatePlanCost 0 \<lparr> type = Some ''tiered'', baseRate = None,
       tiers = Some [\<lparr> limit = Some 100, rate = 0.10 \<rparr>, \<lparr> limit = None, rate = 0.08 \<rparr>],
       periods = None, greenEnergy = False, rewards = False \<rparr>
     [\<lparr> timestamp = 0, kWh = 150 \<rparr>] = Inr 14
   \<and> calculatePlanCost 0 \<lparr> type = Some ''tiered'', baseRate = None,
       tiers = Some [\<lparr> limit = Some 100, rate = 0.10 \<rparr>, \<lparr> limit = Some 20, rate = 0.08 \<rparr>],
       periods = None, greenEnergy = False, rewards = False \<rparr>
     [\<lparr> timestamp = 0, kWh = 150 \<rparr>] = Inr 11.6"
  using tiered_cost [where tz = 0 and s = "\<lparr> type = Some ''tiered'', baseRate = None,
       tiers = Some [\<lparr> limit = Some 100, rate = 0.10 \<rparr>, \<lparr> limit = None, rate = 0.08 \<rparr>],
       periods = None, greenEnergy = False, rewards = False \<rparr>"
       and ts = "[\<lparr> limit = Some 100, rate = 0.10 \<rparr>, \<lparr> limit = None, rate = 0.08 \<rparr>]"
       and U = "[\<lparr> timestamp = 0, kWh = 150 \<rparr>]"]
    tiered_cost [where tz = 0 and s = "\<lparr> type = Some ''tiered'', baseRate = None,
       tiers = Some [\<lparr> limit = Some 100, rate = 0.10 \<rparr>, \<lparr> limit = Some 20, rate = 0.08 \<rparr>],
       periods = None, greenEnergy = False, rewards = False \<rparr>"
       and ts = "[\<lparr> limit = Some 100, rate = 0.10 \<rparr>, \<lparr> limit = Some 20, rate = 0.08 \<rparr>]"
       and U = "[\<lparr> timestamp = 0, kWh = 150 \<rparr>]"]
  by (simp add: limitKWh_def)

text \<open>
  C1 as stated fails for a tier whose limit is 0: the code charges the whole consumption
  at that tier's rate, where \<open>min(remaining, 0)\<close> would consume nothing.
\<close>

theorem tiered_cost_zero_limit_counterexample:
  "calculatePlanCost 0 \<lparr> type = Some ''tiered'', baseRate = None,
       tiers = Some [\<lparr> limit = Some 0, rate = 0.25 \<rparr>, \<lparr> limit = None, rate = 0.05 \<rparr>],
       periods = None, greenEnergy = False, rewards = False \<rparr>
     [\<lparr> timestamp = 0, kWh = 200 \<rparr>] = Inr 50
   \<and> spec_tiered [\<lparr> limit = Some 0, rate = 0.25 \<rparr>, \<lparr> limit = None, rate = 0.05 \<rparr>] 0
       (sum_list (map kWh [\<lparr> timestamp = 0, kWh = 200 \<rparr>])) = 10"
  by (simp add: calculatePlanCost_def calculateTieredCost_def sum_kWh_def min_limit_def)

text \<open>
  C9. A tier whose limit is 0 or absent is unbounded: the tiers listed after it never
  contribute to the cost, a plan that starts with such a tier costs the total kWh times
  that tier's rate, and from any state of the loop such a tier charges all that remains
  at its rate and ends the loop.
\<close>

theorem zero_limit_unbounded:
  assumes "type s = Some ''tiered''" and "tiers s = Some (pre @ t # post)"
    and "limit t = None \<or> limit t = Some 0"
  shows "calculatePlanCost tz s U = calculatePlanCost tz (s\<lparr> tiers := Some (pre @ [t]) \<rparr>) U
       \<and> (pre = [] \<longrightarrow> calculatePlanCost tz s U = Inr (sum_list (map kWh U) * rate t))
       \<and> tier_loop (t # post) cost remainingKwh = cost + remainingKwh * rate t"
proof -
  have full: "calculatePlanCost tz s U = Inr (tier_loop (pre @ t # post) 0 (sum_list (map kWh U)))"
    using assms(1,2)
    by (simp add: calculatePlanCost_def calculateTieredCost_def sum_kWh_eq del: tier_loop.simps)
  have cut: "calculatePlanCost tz (s\<lparr> tiers := Some (pre @ [t]) \<rparr>) U =
      Inr (tier_loop (pre @ [t]) 0 (sum_list (map kWh U)))"
    using assms(1)
    by (simp add: calculatePlanCost_def calculateTieredCost_def sum_kWh_eq del: tier_loop.simps)
  have "calculatePlanCost tz s U = calculatePlanCost tz (s\<lparr> tiers := Some (pre @ [t]) \<rparr>) U"
    using full cut tier_loop_cut [OF assms(3), of pre post 0 "sum_list (map kWh U)"]
    by (simp del: tier_loop.simps)
  moreover have "pre = [] \<longrightarrow> calculatePlanCost tz s U = Inr (sum_list (map kWh U) * rate t)"
    using full tier_loop_unbounded [OF assms(3), of post 0 "sum_list (map kWh U)"]
    by (simp del: tier_loop.simps)
  moreover have "tier_loop (t # post) cost remainingKwh = cost + remainingKwh * rate t"
    by (rule tier_loop_unbounded [OF assms(3)])
  ultimately show ?thesis by blast
qed

theorem zero_limit_unbounded_witness:
  "calculatePlanCost 0 \<lparr> type = Some ''tiered'', baseRate = None,
       tiers = Some [\<lparr> limit = Some 0, rate = 0.10 \<rparr>, \<lparr> limit = None, rate = 0.08 \<rparr>],
       periods = None, greenEnergy = False, rewards = False \<rparr>
     [\<lparr> timestamp = 0, kWh = 150 \<rparr>] = Inr (150 * 0.10)"
  using zero_limit_unbounded [where tz = 0 and s = "\<lparr> type = Some ''tiered'', baseRate = None,
       tiers = Some [\<lparr> limit = Some 0, rate = 0.10 \<rparr>, \<lparr> limit = None, rate = 0.08 \<rparr>],
       periods = None, greenEnergy = False, rewards = False \<rparr>" and pre = "[]"
       and t = "\<lparr> limit = Some 0, rate = 0.10 \<rparr>" and post = "[\<lparr> limit = None, rate = 0.08 \<rparr>]"
       and U = "[\<lparr> timestamp = 0, kWh = 150 \<rparr>]" and cost = 0 and remainingKwh = 0,
       THEN conjunct2, THEN conjunct1]
  by simp

text \<open>
  C4, as the code has it. For every time-of-use plan with a \<open>periods\<close> object and every
  usage series, the cost is the sum over the readings of the kWh times the rate of the
  reading's hour (in the zone of the server), where on-peak is \<open>[7, 11)\<close> and \<open>[17, 19)\<close>, mid-peak is
  \<open>[11, 17)\<close> and every other hour is off-peak; each rate is the plan's when it is
  present and not 0, and the default 0.08, 0.13 or 0.18 otherwise.
\<close>

theorem tou_cost:
  assumes "type s = Some ''tou''" and "periods s = Some p"
  shows "calculatePlanCost tz s U =
           Inr (\<Sum>u\<leftarrow>U. kWh u *
                  spec_tou_rate (or_default (offPeak p) 0.08) (or_default (midPeak p) 0.13)
                    (or_default (onPeak p) 0.18) (getHours tz (timestamp u)))
       \<and> (\<forall>r. offPeak p = Some r \<and> r \<noteq> 0 \<longrightarrow> or_default (offPeak p) 0.08 = r)
       \<and> (\<forall>r. midPeak p = Some r \<and> r \<noteq> 0 \<longrightarrow> or_default (midPeak p) 0.13 = r)
       \<and> (\<forall>r. onPeak p = Some r \<and> r \<noteq> 0 \<longrightarrow> or_default (onPeak p) 0.18 = r)"
  using assms
  by (simp add: calculatePlanCost_def calculateTOUCost_def tou_loop_eq rate_for_hour_spec
      or_default_def)

theorem tou_cost_witness:
  "calculatePlanCost 0 \<lparr> type = Some ''tou'', baseRate = None, tiers = None,
       periods = Some \<lparr> offPeak = Some 0.08, midPeak = Some 0.13, onPeak = Some 0.18 \<rparr>,
       greenEnergy = False, rewards = False \<rparr>
     [\<lparr> timestamp = 8 * 3600000, kWh = 2 \<rparr>] = Inr 0.36
   \<and> calculatePlanCost 0 \<lparr> type = Some ''tou'', baseRate = None, tiers = None,
       periods = Some \<lparr> offPeak = Some 0.08, midPeak = Some 0.13, onPeak = Some 0.18 \<rparr>,
       greenEnergy = False, rewards = False \<rparr>
     [\<lparr> timestamp = 2 * 3600000, kWh = 2 \<rparr>] = Inr 0.16"
  using tou_cost [where tz = 0 and s = "\<lparr> type = Some ''tou'', baseRate = None, tiers = None,
       periods = Some \<lparr> offPeak = Some 0.08, midPeak = Some 0.13, onPeak = Some 0.18 \<rparr>,
       greenEnergy = False, rewards = False \<rparr>"
       and p = "\<lparr> offPeak = Some 0.08, midPeak = Some 0.13, onPeak = Some 0.18 \<rparr>"
       and U = "[\<lparr> timestamp = 8 * 3600000, kWh = 2 \<rparr>]"]
    tou_cost [where tz = 0 and s = "\<lparr> type = Some ''tou'', baseRate = None, tiers = None,
       periods = Some \<lparr> offPeak = Some 0.08, midPeak = Some 0.13, onPeak = Some 0.18 \<rparr>,
       greenEnergy = False, rewards = False \<rparr>"
       and p = "\<lparr> offPeak = Some 0.08, midPeak = Some 0.13, onPeak = Some 0.18 \<rparr>"
       and U = "[\<lparr> timestamp = 2 * 3600000, kWh = 2 \<rparr>]"]
  by (simp add: spec_tou_rate_def or_default_def getHours_def)

text \<open>
  C4 as stated fails for an off-peak rate of 0: a reading of 2 kWh at hour 2 costs 0.16,
  the default rate, where the plan's off-peak rate gives 0.
\<close>

theorem tou_cost_zero_rate_counterexample:
  "calculatePlanCost 0 \<lparr> type = Some ''tou'', baseRate = None, tiers = None,
       periods = Some \<lparr> offPeak = Some 0, midPeak = Some 0.13, onPeak = Some 0.18 \<rparr>,
       greenEnergy = False, rewards = False \<rparr>
     [\<lparr> timestamp = 2 * 3600000, kWh = 2 \<rparr>] = Inr 0.16
   \<and> kWh \<lparr> timestamp = 2 * 3600000, kWh = 2 \<rparr> * spec_tou_rate 0 0.13 0.18 (getHours 0 (2 * 3600000)) = 0"
  by (simp add: calculatePlanCost_def calculateTOUCost_def rate_for_hour_def or_default_def
      getHours_def spec_tou_rate_def)

section \<open>The ranker: properties\<close>

text \<open>
  C2, as the code has it. For every candidate plan whose cost is computed, the annual
  savings are \<open>max(0, (currentCost - estimatedCost) * 4)\<close>: the factor is the constant 4
  (twelve months over an assumed period of three), whatever the length of the analysis
  window. The current cost is 0.15 times the total kWh when the account has a provider,
  and the estimated cost itself otherwise.
\<close>

theorem annual_savings:
  assumes "calculatePlanCost tz (plan_schema p) U = Inr est"
  shows "\<exists>c. compare_plan tz prov U p = Inr c \<and>
           estimatedAnnualSavings c =
             max 0 (((if prov = None \<or> prov = Some '''' then est
                      else 0.15 * sum_list (map kWh U)) - est) * 4)"
  using assms
  by (auto simp: compare_plan_def Let_def truthy_def calculateCurrentCost_def sum_kWh_eq
      split: option.splits)

theorem annual_savings_witness:
  "map_sum id estimatedAnnualSavings (compare_plan 0 (Some ''Acme'') usage_100 flat_plan)
     = Inr (max 0 ((0.15 * 100 - 10) * 4))"
proof -
  from annual_savings [OF flat_plan_cost, where prov = "Some ''Acme''"]
  obtain c where "compare_plan 0 (Some ''Acme'') usage_100 flat_plan = Inr c"
    and "estimatedAnnualSavings c = max 0 ((0.15 * sum_list (map kWh usage_100) - 10) * 4)"
    by auto
  then show ?thesis by (simp add: usage_100_def)
qed

text \<open>
  C2 as stated fails for the default window of 90 days: with a current cost of 15 and an
  estimated cost of 10 the savings are 20, not \<open>5 * 365 / 90\<close>.
\<close>

theorem annual_savings_factor_counterexample:
  "map_sum id estimatedAnnualSavings (compare_plan 0 (Some ''Acme'') usage_100 flat_plan) = Inr 20
   \<and> calculatePlanCost 0 (plan_schema flat_plan) usage_100 = Inr 10
   \<and> calculateCurrentCost usage_100 = 15
   \<and> max 0 ((15 - 10) * (365 / 90)) \<noteq> (20 :: real)"
  by (simp add: example_defs)

text \<open>
  C6. The recommendations of a response are sorted non-increasing in the annual savings
  and are at most 5; their number is the smaller of 5 and the number of active plans of
  the region, and when these are at most 5 all of them are recommended.
\<close>

theorem ranker_sorted_top5:
  assumes "handleCompare tz prov U catalog region = Inr resp"
  shows "sorted_wrt (\<lambda>a b. estimatedAnnualSavings a \<ge> estimatedAnnualSavings b) (recommendations resp)
       \<and> length (recommendations resp) \<le> 5
       \<and> length (recommendations resp) \<le> length (findMany_plans catalog region)
       \<and> length (recommendations resp) = min 5 (length (findMany_plans catalog region))
       \<and> (length (findMany_plans catalog region) \<le> 5 \<longrightarrow>
            mset (map planId (recommendations resp)) =
            mset (map plan_id (findMany_plans catalog region)))"
proof -
  from assms obtain cs
    where cs: "map_plans (compare_plan tz prov U) (findMany_plans catalog region) = Inr cs"
      and recs: "recommendations resp = take 5 (sort_by_savings cs)"
    by (rule handleCompare_Inr)
  have len: "length cs = length (findMany_plans catalog region)"
    using cs by (rule map_plans_length)
  have "sorted_wrt (\<lambda>a b. estimatedAnnualSavings a \<ge> estimatedAnnualSavings b) (recommendations resp)"
    unfolding recs using sorted_sort_by_savings by (rule sorted_wrt_take)
  moreover have l: "length (recommendations resp) = min 5 (length (findMany_plans catalog region))"
    using len by (simp add: recs sort_by_savings_def)
  moreover have "mset (map planId (recommendations resp)) =
      mset (map plan_id (findMany_plans catalog region))"
    if "length (findMany_plans catalog region) \<le> 5"
  proof -
    from that len have "recommendations resp = sort_by_savings cs"
      by (simp add: recs sort_by_savings_def)
    then have "mset (recommendations resp) = mset cs"
      by (simp add: sort_by_savings_def)
    then have "mset (map planId (recommendations resp)) = mset (map planId cs)"
      by (metis mset_map)
    then show ?thesis using map_plans_planId [OF cs] by simp
  qed
  ultimately show ?thesis by simp
qed

theorem ranker_sorted_top5_witness:
  "map_sum id (map estimatedAnnualSavings \<circ> recommendations)
     (handleCompare 0 (Some ''Acme'') usage_100 [flat_plan, inactive_plan, tiered_plan] ''TX'')
   = Inr [30, 20]
   \<and> length (findMany_plans [flat_plan, inactive_plan, tiered_plan] ''TX'') = 2"
proof -
  obtain resp where h: "handleCompare 0 (Some ''Acme'') usage_100
      [flat_plan, inactive_plan, tiered_plan] ''TX'' = Inr resp"
    by (simp add: example_defs)
  from ranker_sorted_top5 [OF h] h show ?thesis
    by (auto simp: example_defs)
qed

text \<open>
  C10. When the account has no provider (it is null or the empty string), every
  recommendation of the response has annual savings 0, and the recommendations are the
  first 5 active plans of the region in the order of the catalogue.
\<close>

theorem no_provider_zero_savings:
  assumes "prov = None \<or> prov = Some ''''"
    and "handleCompare tz prov U catalog region = Inr resp"
  shows "(\<forall>c\<in>set (recommendations resp). estimatedAnnualSavings c = 0)
       \<and> map planId (recommendations resp) = take 5 (map plan_id (findMany_plans catalog region))"
proof -
  from assms(1) have np: "\<not> truthy prov" by (auto simp: truthy_def)
  from assms(2) obtain cs
    where cs: "map_plans (compare_plan tz prov U) (findMany_plans catalog region) = Inr cs"
      and recs: "recommendations resp = take 5 (sort_by_savings cs)"
    by (rule handleCompare_Inr)
  have zero: "\<forall>c\<in>set cs. estimatedAnnualSavings c = 0"
    using np cs by (rule map_plans_no_provider)
  then have "sort_by_savings cs = cs"
    unfolding sort_by_savings_def by (intro sort_key_all_equal [where k = 0]) simp
  with recs have r: "recommendations resp = take 5 cs" by simp
  have "\<forall>c\<in>set (recommendations resp). estimatedAnnualSavings c = 0"
    using zero r by (auto dest: in_set_takeD)
  moreover have "map planId (recommendations resp) = take 5 (map plan_id (findMany_plans catalog region))"
  proof -
    have "map planId (take 5 cs) = take 5 (map planId cs)"
      by (simp add: take_map)
    then show ?thesis using map_plans_planId [OF cs] r by simp
  qed
  ultimately show ?thesis by simp
qed

theorem no_provider_zero_savings_witness:
  "map_sum id (map estimatedAnnualSavings \<circ> recommendations)
     (handleCompare 0 None usage_100 [flat_plan, inactive_plan, tiered_plan] ''TX'') = Inr [0, 0]
   \<and> map_sum id (map planId \<circ> recommendations)
     (handleCompare 0 None usage_100 [flat_plan, inactive_plan, tiered_plan] ''TX'')
       = Inr [''flat'', ''tiered'']"
proof -
  obtain resp where h: "handleCompare 0 None usage_100
      [flat_plan, inactive_plan, tiered_plan] ''TX'' = Inr resp"
    by (simp add: example_defs)
  have "None = None \<or> None = Some ''''" by simp
  from no_provider_zero_savings [OF this h] h show ?thesis
    by (auto simp: example_defs)
qed

section \<open>The prediction route: properties\<close>

text \<open>
  C3, as the code has it. In every time zone of the server the prediction fails with the
  insufficient data error exactly when the usage series has fewer than 168 readings,
  whatever number of calendar days they cover. A series of 168 readings or more passes
  this precondition, and it yields a response when the server runs in UTC, or more
  generally when the day of the week looked up for the day of each reading is the day of
  the week of some reading.
\<close>

theorem prediction_precondition:
  "(handlePrediction tz U d = Inl InsufficientData \<longleftrightarrow> length U < 168)
   \<and> (168 \<le> length U \<and> (tz = 0 \<or> weekdays_known tz U) \<longrightarrow>
        (\<exists>r. handlePrediction tz U d = Inr r \<and> dataPoints r = length U))"
proof -
  have "\<exists>r. handlePrediction tz U d = Inr r \<and> dataPoints r = length U"
    if "168 \<le> length U" and "tz = 0 \<or> weekdays_known tz U"
  proof -
    from that(2) have "weekdays_known tz U" using weekdays_known_UTC by auto
    with that(1) show ?thesis by (rule handlePrediction_Inr)
  qed
  with handlePrediction_guard [of tz U d] show ?thesis by blast
qed

theorem prediction_precondition_witness:
  "distinct_days hourly_week = 7 \<and> length hourly_week = 168
   \<and> handlePrediction 0 hourly_week 30 \<noteq> Inl InsufficientData
   \<and> handlePrediction 0 hourly_week 30 \<noteq> Inl TypeError"
  using prediction_precondition [of 0 hourly_week 30] distinct_days_hourly_week length_examples(2)
  by auto

text \<open>
  C3 as stated fails both ways: seven readings on seven distinct days are rejected, and
  168 readings within one day are accepted.
\<close>

theorem prediction_precondition_counterexample:
  "distinct_days daily_week = 7 \<and> handlePrediction 0 daily_week 30 = Inl InsufficientData
   \<and> distinct_days minute_readings = 1 \<and> handlePrediction 0 minute_readings 30 \<noteq> Inl InsufficientData"
  using distinct_days_daily_week distinct_days_minute_readings
    handlePrediction_guard [of 0 daily_week 30] handlePrediction_guard [of 0 minute_readings 30]
  by (simp add: length_examples)

text \<open>
  C7, as the code has it. When the series of daily totals has fewer than 2 values, the
  slope is the quotient of 0 by 0, which is \<open>NaN\<close>: no guard avoids the division. The
  trend label is \<open>stable\<close> all the same, in every prediction made from such analytics,
  since both comparisons with the thresholds are false of \<open>NaN\<close>.
\<close>

theorem degenerate_trend:
  assumes "length values < 2"
  shows "calculateTrend values = NaN
       \<and> trend_of (calculateTrend values) = stable
       \<and> (map snd (fst (analytics_loop tz U [] [] [] [])) = values \<and>
            calculateAnalytics tz U = Inr a \<and> generatePredictions tz U d a = Inr ps \<longrightarrow>
            monthlyTrend a = NaN \<and> list_all (\<lambda>p. trend p = stable) ps)"
proof -
  have nan: "calculateTrend values = NaN"
    using assms by (rule calculateTrend_degenerate)
  have "monthlyTrend a = NaN \<and> list_all (\<lambda>p. trend p = stable) ps"
    if v: "map snd (fst (analytics_loop tz U [] [] [] [])) = values"
      and c: "calculateAnalytics tz U = Inr a"
      and g: "generatePredictions tz U d a = Inr ps"
  proof -
    from calculateAnalytics_trend [OF c] v nan have m: "monthlyTrend a = NaN"
      by simp
    with generatePredictions_trends [OF g] show ?thesis
      by (simp add: trend_of_NaN)
  qed
  with nan show ?thesis by (simp add: trend_of_NaN)
qed

theorem degenerate_trend_witness:
  "calculateTrend [24] = NaN \<and> trend_of (calculateTrend [24]) = stable
   \<and> map_sum id monthlyTrend (calculateAnalytics 0 [\<lparr> timestamp = 0, kWh = 24 \<rparr>]) = Inr NaN"
proof -
  let ?U = "[\<lparr> timestamp = 0, kWh = 24 \<rparr>]"
  have l: "length [24 :: real] < 2" by simp
  have v: "map snd (fst (analytics_loop 0 ?U [] [] [] [])) = [24]"
    by (simp add: get_or_zero_def Let_def)
  obtain a where c: "calculateAnalytics 0 ?U = Inr a"
    using calculateAnalytics_Inr [of ?U 0] by auto
  obtain ps where g: "generatePredictions 0 ?U 2 a = Inr ps"
    using generatePredictions_Inr [of ?U 0 2 a] weekdays_known_UTC by auto
  from degenerate_trend [OF l, where tz = 0 and U = ?U and a = a and d = 2 and ps = ps] v c g
  have "calculateTrend [24] = NaN \<and> trend_of (calculateTrend [24]) = stable \<and> monthlyTrend a = NaN"
    by blast
  with c show ?thesis by (simp add: trend_of_NaN)
qed

text \<open>C7 as stated fails for a single day: the slope is not 0.\<close>

theorem degenerate_trend_counterexample:
  "calculateTrend [24] \<noteq> Num 0"
  by (simp add: calculateTrend_def js_div_def)

text \<open>
  C8, as the code has it. For a usage series that is not empty the predictions are made
  (on a server in UTC, or when the days of the week looked up are those of readings), and
  they are as many as the whole days of the horizon;
  the confidence of the \<open>i\<close>-th is \<open>max(0.5, 1 - (i / days) * 0.3)\<close> rounded to two
  decimals (\<open>Math.round(c * 100) / 100\<close>); the confidences are non-increasing along the
  horizon and never below 0.5.
\<close>

theorem confidence_decay:
  assumes "U \<noteq> []" and "tz = 0 \<or> weekdays_known tz U"
  shows "\<exists>ps. generatePredictions tz U days a = Inr ps
       \<and> length ps = nat \<lfloor>days\<rfloor>
       \<and> (\<forall>i. 1 \<le> i \<and> i \<le> length ps \<longrightarrow>
            confidence (ps ! (i - 1)) =
              real_of_int \<lfloor>max 0.5 (1 - (real i / days) * 0.3) * 100 + 1 / 2\<rfloor> / 100)
       \<and> (\<forall>i j. i \<le> j \<and> j < length ps \<longrightarrow> confidence (ps ! j) \<le> confidence (ps ! i))
       \<and> (\<forall>p\<in>set ps. 0.5 \<le> confidence p)"
proof -
  from assms(2) have "weekdays_known tz U" using weekdays_known_UTC by auto
  with assms(1) obtain ps where g: "generatePredictions tz U days a = Inr ps"
    using generatePredictions_Inr by blast
  let ?c = "\<lambda>j. real_of_int (math_round (confidence_at j days * 100)) / 100"
  have cs: "map confidence ps = map ?c [1..<Suc (nat \<lfloor>days\<rfloor>)]"
    using g by (rule generatePredictions_confidences)
  then have "length (map confidence ps) = length (map ?c [1..<Suc (nat \<lfloor>days\<rfloor>)])"
    by (simp only:)
  then have len: "length ps = nat \<lfloor>days\<rfloor>" by (simp del: upt_Suc)
  have nth: "confidence (ps ! k) = ?c (Suc k)" if "k < length ps" for k
  proof -
    from that have "confidence (ps ! k) = map confidence ps ! k" by simp
    also have "\<dots> = map ?c [1..<Suc (nat \<lfloor>days\<rfloor>)] ! k" by (simp only: cs)
    also have "\<dots> = ?c (Suc k)" using that len by (simp del: upt_Suc)
    finally show ?thesis .
  qed
  have "confidence (ps ! (i - 1)) =
      real_of_int \<lfloor>max 0.5 (1 - (real i / days) * 0.3) * 100 + 1 / 2\<rfloor> / 100"
    if "1 \<le> i \<and> i \<le> length ps" for i
  proof -
    from that have "i - 1 < length ps" and "Suc (i - 1) = i" by auto
    with nth [of "i - 1"] show ?thesis
      by (simp add: math_round_def confidence_at_def)
  qed
  moreover have "confidence (ps ! j) \<le> confidence (ps ! i)"
    if "i \<le> j \<and> j < length ps" for i j
  proof -
    from that len have "0 < nat \<lfloor>days\<rfloor>" by linarith
    then have "0 < days" by (simp add: floor_less_iff less_floor_iff)
    moreover from that have "Suc i \<le> Suc j" by simp
    ultimately have "?c (Suc j) \<le> ?c (Suc i)"
      by (rule rounded_confidence_antimono)
    with that show ?thesis by (simp add: nth)
  qed
  moreover have "\<forall>p\<in>set ps. 0.5 \<le> confidence p"
  proof
    fix p assume "p \<in> set ps"
    then obtain k where "k < length ps" and "p = ps ! k"
      by (auto simp: in_set_conv_nth)
    with nth [of k] rounded_confidence_lower [of "Suc k" days] show "0.5 \<le> confidence p"
      by simp
  qed
  ultimately show ?thesis using g len by blast
qed

theorem confidence_decay_witness:
  "map_sum id (map confidence) (generatePredictions 0 usage_100 7
       \<lparr> averageDailyUsage = Num 100, peakUsageHour = 0, lowestUsageHour = 1,
         weekdayAverage = Num 50, weekendAverage = NaN, monthlyTrend = NaN \<rparr>)
     = Inr [0.96, 0.91, 0.87, 0.83, 0.79, 0.74, 0.7]"
proof -
  let ?a = "\<lparr> averageDailyUsage = Num 100, peakUsageHour = 0, lowestUsageHour = 1,
         weekdayAverage = Num 50, weekendAverage = NaN, monthlyTrend = NaN \<rparr>"
  have ne: "usage_100 \<noteq> []" by (simp add: usage_100_def)
  have "(0 :: int) = 0 \<or> weekdays_known 0 usage_100" by simp
  from confidence_decay [OF ne this, where days = 7 and a = ?a] obtain ps
    where h: "generatePredictions 0 usage_100 7 ?a = Inr ps"
      and len: "length ps = 7"
      and nth: "\<And>i. 1 \<le> i \<and> i \<le> length ps \<Longrightarrow> confidence (ps ! (i - 1)) =
              real_of_int \<lfloor>max 0.5 (1 - (real i / 7) * 0.3) * 100 + 1 / 2\<rfloor> / 100"
    by auto
  have "map confidence ps = [0.96, 0.91, 0.87, 0.83, 0.79, 0.74, 0.7]"
    using len nth [of 1] nth [of 2] nth [of 3] nth [of 4] nth [of 5] nth [of 6] nth [of 7]
    by (auto simp: list_eq_iff_nth_eq nth_Cons' less_Suc_eq numeral_eq_Suc)
  with h show ?thesis by simp
qed

text \<open>
  C8 as stated fails for a horizon of 7 days: the first confidence is 0.96, the rounding
  of \<open>1 - (1 / 7) * 0.3\<close>.
\<close>

theorem confidence_rounding_counterexample:
  "map_sum id (map confidence) (generatePredictions 0 usage_100 7
       \<lparr> averageDailyUsage = Num 100, peakUsageHour = 0, lowestUsageHour = 1,
         weekdayAverage = Num 50, weekendAverage = NaN, monthlyTrend = NaN \<rparr>)
     = Inr [0.96, 0.91, 0.87, 0.83, 0.79, 0.74, 0.7]
   \<and> max 0.5 (1 - (1 / 7) * 0.3) \<noteq> (0.96 :: real)"
proof -
  let ?a = "\<lparr> averageDailyUsage = Num 100, peakUsageHour = 0, lowestUsageHour = 1,
         weekdayAverage = Num 50, weekendAverage = NaN, monthlyTrend = NaN \<rparr>"
  obtain ps where h: "generatePredictions 0 usage_100 7 ?a = Inr ps"
    using generatePredictions_Inr [of usage_100 0 7 ?a] weekdays_known_UTC
    by (auto simp: usage_100_def)
  from generatePredictions_confidences [OF h]
  have "map confidence ps = [0.96, 0.91, 0.87, 0.83, 0.79, 0.74, 0.7]"
    by (simp add: upt_rec math_round_def confidence_at_def)
  with h show ?thesis by simp
qed

end
